theory Spec2Isabelle
  imports Main "HOL-Library.Word" "HOL-Library.Multiset"
begin

section \<open>Gauge: the parallel execution coordinator and the timeout configuration\<close>

text \<open>
  A shallow embedding of \<^verbatim>\<open>execution/parallelExecution.go\<close> and of the timeout
  conversion of \<^verbatim>\<open>config/configuration.go\<close>. Go strings are byte lists
  (\<^typ>\<open>string\<close>), slices are lists, a nil pointer is \<^term>\<open>None\<close>.
\<close>

subsection \<open>Specifications and the stream error\<close>

text \<open>
  Modelled from the spec: the package \<^verbatim>\<open>gauge\<close> with \<^verbatim>\<open>SpecCollection\<close> is not among
  the sources. A specification is a named unit of work whose identity is its name, and a
  collection is an ordered sequence of specifications that exposes its count
  (\<^verbatim>\<open>Size\<close>) and the contained names (\<^verbatim>\<open>SpecNames\<close>).
\<close>

type_synonym Specification = string
type_synonym SpecCollection = "Specification list"

definition Size :: "SpecCollection \<Rightarrow> int" where
  "Size s = int (length s)"

definition SpecNames :: "SpecCollection \<Rightarrow> string list" where
  "SpecNames s = s"

text \<open>\<^verbatim>\<open>type streamExecError struct { specsSkipped []string; message string }\<close>\<close>

record streamExecError =
  specsSkipped :: "string list"
  message :: string

text \<open>The line feed that \<^verbatim>\<open>\n\<close> denotes in a Go string literal.\<close>

abbreviation LF :: char where
  "LF \<equiv> CHR 0x0A"

text \<open>
  The loop of \<^verbatim>\<open>streamExecError.Error\<close>: \<^verbatim>\<open>specNames += fmt.Sprintf("%s\n", spec)\<close>
  for every element of \<^verbatim>\<open>specsSkipped\<close>, from the empty string.
\<close>

fun appendSpecNames :: "string \<Rightarrow> string list \<Rightarrow> string" where
  "appendSpecNames specNames [] = specNames"
| "appendSpecNames specNames (spec # rest) = appendSpecNames (specNames @ spec @ [LF]) rest"

definition Error :: "streamExecError \<Rightarrow> string" where
  "Error s =
     (let specNames = appendSpecNames [] (specsSkipped s)
      in ''The following specifications could not be executed:'' @ [LF] @ specNames
           @ ''Reason : '' @ message s @ ''.'')"

subsection \<open>Stream-count resolution\<close>

text \<open>
  The fields of \<^verbatim>\<open>parallelExecution\<close> that \<^verbatim>\<open>numberOfStreams\<close> reads. A Go \<^verbatim>\<open>int\<close>
  is only compared here, never computed with, so it is an \<^typ>\<open>int\<close>.
\<close>

record parallelExecution =
  specCollection :: SpecCollection
  numberOfExecutionStreams :: int

definition numberOfStreams :: "parallelExecution \<Rightarrow> int" where
  "numberOfStreams e =
     (let nStreams = numberOfExecutionStreams e;
          size = Size (specCollection e)
      in if nStreams > size then size else nStreams)"

subsection \<open>Stream results and the suite result\<close>

text \<open>
  An unhandled error is either the plain error that \<^verbatim>\<open>fmt.Errorf\<close> builds (it carries
  only its text) or a \<^verbatim>\<open>streamExecError\<close>.
\<close>

datatype goError = FmtError string | StreamExecErr streamExecError

fun isStreamExecErr :: "goError \<Rightarrow> bool" where
  "isStreamExecErr (StreamExecErr _) = True"
| "isStreamExecErr (FmtError _) = False"

text \<open>
  Modelled from the spec: the package \<^verbatim>\<open>result\<close> with \<^verbatim>\<open>SuiteResult\<close>,
  \<^verbatim>\<open>NewSuiteResult\<close> and \<^verbatim>\<open>SetSpecsSkippedCount\<close> is not among the sources. A suite
  result holds the failed-spec count, the ordered spec results, the failure flag, the
  optional pre- and post-suite hook results, the unhandled errors, the skipped count and
  the execution time; the fields are the ones \<^verbatim>\<open>aggregateResults\<close> reads and writes.
  The spec results \<open>'sr\<close> and the hook results \<open>'h\<close> stay abstract; a hook pointer that
  is nil is \<^term>\<open>None\<close>. The counters are Go \<^verbatim>\<open>int\<close>s that are added up, so they are
  64-bit words and \<open>+\<close> wraps as in Go.
\<close>

type_synonym goInt = "64 word"

record ('sr, 'h) SuiteResult =
  SpecResults :: "'sr list"
  PreSuite :: "'h option"
  PostSuite :: "'h option"
  IsFailed :: bool
  SpecsFailedCount :: goInt
  SpecsSkippedCount :: goInt
  UnhandledErrors :: "goError list"
  ExecutionTime :: int
  Tags :: string
  Timestamp :: int

text \<open>The Go zero value \<^verbatim>\<open>result.SuiteResult{}\<close>.\<close>

definition zeroSuiteResult :: "('sr, 'h) SuiteResult" where
  "zeroSuiteResult =
     \<lparr>SpecResults = [], PreSuite = None, PostSuite = None, IsFailed = False,
      SpecsFailedCount = 0, SpecsSkippedCount = 0, UnhandledErrors = [],
      ExecutionTime = 0, Tags = [], Timestamp = 0\<rparr>"

text \<open>
  Modelled from the spec: \<^verbatim>\<open>result.NewSuiteResult\<close> is not among the sources. The
  aggregate is created once at aggregation time: a fresh result that records the tags
  and the start time and has nothing else set.
\<close>

definition NewSuiteResult :: "string \<Rightarrow> int \<Rightarrow> ('sr, 'h) SuiteResult" where
  "NewSuiteResult tags startTime = zeroSuiteResult\<lparr>Tags := tags, Timestamp := startTime\<rparr>"

text \<open>
  Modelled from the spec: \<^verbatim>\<open>SetSpecsSkippedCount\<close> is not among the sources. The skipped
  count is recomputed from the aggregate's own spec results; which spec result counts
  as skipped is the parameter \<open>skipped\<close>.
\<close>

definition SetSpecsSkippedCount ::
  "('sr \<Rightarrow> bool) \<Rightarrow> ('sr, 'h) SuiteResult \<Rightarrow> ('sr, 'h) SuiteResult" where
  "SetSpecsSkippedCount skipped r =
     r\<lparr>SpecsSkippedCount := of_nat (length (filter skipped (SpecResults r)))\<rparr>"

text \<open>Go's integer division truncates towards zero.\<close>

definition quot :: "int \<Rightarrow> int \<Rightarrow> int" where
  "quot a b = sgn a * sgn b * (\<bar>a\<bar> div \<bar>b\<bar>)"

subsection \<open>Aggregation\<close>

text \<open>
  The body of the loop of \<^verbatim>\<open>aggregateResults\<close>, one statement after the other. A nil
  slice and an empty one are both \<^term>\<open>[]\<close>: appending either changes nothing.
\<close>

definition addStreamResult ::
  "('sr, 'h) SuiteResult \<Rightarrow> ('sr, 'h) SuiteResult \<Rightarrow> ('sr, 'h) SuiteResult" where
  "addStreamResult r result =
     (let r1 = r\<lparr>SpecsFailedCount := SpecsFailedCount r + SpecsFailedCount result\<rparr>;
          r2 = r1\<lparr>SpecResults := SpecResults r1 @ SpecResults result\<rparr>;
          r3 = (if IsFailed result then r2\<lparr>IsFailed := True\<rparr> else r2);
          r4 = (if PreSuite result \<noteq> None then r3\<lparr>PreSuite := PreSuite result\<rparr> else r3);
          r5 = (if PostSuite result \<noteq> None then r4\<lparr>PostSuite := PostSuite result\<rparr> else r4)
      in if UnhandledErrors result \<noteq> []
         then r5\<lparr>UnhandledErrors := UnhandledErrors r5 @ UnhandledErrors result\<rparr>
         else r5)"

fun foldStreamResults ::
  "('sr, 'h) SuiteResult \<Rightarrow> ('sr, 'h) SuiteResult list \<Rightarrow> ('sr, 'h) SuiteResult" where
  "foldStreamResults r [] = r"
| "foldStreamResults r (result # rest) = foldStreamResults (addStreamResult r result) rest"

text \<open>
  \<^verbatim>\<open>aggregateResults\<close> returns what it stores in \<^verbatim>\<open>e.suiteResult\<close>. \<open>ExecuteTags\<close> is the
  package variable of that name, \<open>startTime\<close> the field \<^verbatim>\<open>e.startTime\<close>, and \<open>elapsed\<close>
  the nanoseconds that \<^verbatim>\<open>time.Since(e.startTime)\<close> returns.
\<close>

definition aggregateResults ::
  "('sr \<Rightarrow> bool) \<Rightarrow> string \<Rightarrow> int \<Rightarrow> int \<Rightarrow> ('sr, 'h) SuiteResult list
     \<Rightarrow> ('sr, 'h) SuiteResult" where
  "aggregateResults skipped ExecuteTags startTime elapsed suiteResults =
     (let r = foldStreamResults (NewSuiteResult ExecuteTags startTime) suiteResults;
          r' = r\<lparr>ExecutionTime := quot elapsed 1000000\<rparr>
      in SetSpecsSkippedCount skipped r')"

text \<open>
  What the specification says about the hook results, in its words: the first non-nil one;
  and what the loop keeps: the last non-nil one.
\<close>

fun firstNonNil :: "'a option list \<Rightarrow> 'a option" where
  "firstNonNil [] = None"
| "firstNonNil (None # xs) = firstNonNil xs"
| "firstNonNil (Some x # xs) = Some x"

definition lastNonNil :: "'a option list \<Rightarrow> 'a option" where
  "lastNonNil xs = firstNonNil (rev xs)"

subsection \<open>Stream workers\<close>

text \<open>
  A worker runs in a goroutine of its own; what it does is the sequence of its calls to
  its collaborators: the logger, the single-stream executor, the runner's \<^verbatim>\<open>Kill\<close>, the
  send on \<^verbatim>\<open>resChan\<close> and the deferred \<^verbatim>\<open>wg.Done\<close>. The outcome of \<^verbatim>\<open>runner.Start\<close> is
  the argument \<open>started\<close>: \<^term>\<open>Inl\<close> with the text of the error, or \<^term>\<open>Inr\<close> with
  the runner. The executor (\<^verbatim>\<open>newSimpleExecution(...).execute()\<close>, not among the
  sources) is the function \<open>execute\<close> from the specs, the runner and the stream number to
  the suite result it leaves in \<^verbatim>\<open>se.suiteResult\<close>.
\<close>

datatype ('sr, 'h, 'rn) event =
    LogErrorf string
  | LogDebug int
  | Execute SpecCollection 'rn int
  | Kill 'rn
  | Send "('sr, 'h) SuiteResult"
  | WgDone

definition startSpecsExecutionWithRunner ::
  "(SpecCollection \<Rightarrow> 'rn \<Rightarrow> int \<Rightarrow> ('sr, 'h) SuiteResult) \<Rightarrow> SpecCollection \<Rightarrow> 'rn \<Rightarrow> int
     \<Rightarrow> ('sr, 'h, 'rn) event list" where
  "startSpecsExecutionWithRunner execute s runner stream =
     [Execute s runner stream, Kill runner, Send (execute s runner stream)]"

definition startStream ::
  "(SpecCollection \<Rightarrow> 'rn \<Rightarrow> int \<Rightarrow> ('sr, 'h) SuiteResult) \<Rightarrow> SpecCollection
     \<Rightarrow> string + 'rn \<Rightarrow> int \<Rightarrow> ('sr, 'h, 'rn) event list" where
  "startStream execute s started stream =
     (case started of
        Inl err \<Rightarrow>
          [LogErrorf (''Failed to start runner. '' @ err),
           Send (zeroSuiteResult
                   \<lparr>UnhandledErrors := [FmtError (''Failed to start runner. '' @ err)]\<rparr>)]
      | Inr runner \<Rightarrow> startSpecsExecutionWithRunner execute s runner stream)
     @ [WgDone]"

definition startSpecsExecution ::
  "(SpecCollection \<Rightarrow> 'rn \<Rightarrow> int \<Rightarrow> ('sr, 'h) SuiteResult) \<Rightarrow> SpecCollection
     \<Rightarrow> string + 'rn \<Rightarrow> int \<Rightarrow> ('sr, 'h, 'rn) event list" where
  "startSpecsExecution execute s started stream =
     (case started of
        Inl err \<Rightarrow>
          [LogErrorf (''Failed to start runner. '' @ err),
           LogDebug (Size s),
           Send (zeroSuiteResult
                   \<lparr>UnhandledErrors :=
                      [StreamExecErr \<lparr>specsSkipped = SpecNames s,
                                      message = ''Failed to start runner. '' @ err\<rparr>]\<rparr>)]
      | Inr runner \<Rightarrow> startSpecsExecutionWithRunner execute s runner stream)
     @ [WgDone]"

text \<open>What a trace shows: the results sent, the runners killed, the specs executed.\<close>

fun sentOf :: "('sr, 'h, 'rn) event \<Rightarrow> ('sr, 'h) SuiteResult list" where
  "sentOf (Send r) = [r]"
| "sentOf _ = []"

fun killedOf :: "('sr, 'h, 'rn) event \<Rightarrow> 'rn list" where
  "killedOf (Kill rn) = [rn]"
| "killedOf _ = []"

fun executedOf :: "('sr, 'h, 'rn) event \<Rightarrow> SpecCollection list" where
  "executedOf (Execute s rn stream) = [s]"
| "executedOf _ = []"

definition sent :: "('sr, 'h, 'rn) event list \<Rightarrow> ('sr, 'h) SuiteResult list" where
  "sent t = concat (map sentOf t)"

definition killed :: "('sr, 'h, 'rn) event list \<Rightarrow> 'rn list" where
  "killed t = concat (map killedOf t)"

definition executed :: "('sr, 'h, 'rn) event list \<Rightarrow> SpecCollection list" where
  "executed t = concat (map executedOf t)"

text \<open>The trace without the logging and the wait-group events.\<close>

fun isLifecycle :: "('sr, 'h, 'rn) event \<Rightarrow> bool" where
  "isLifecycle (Execute s rn stream) = True"
| "isLifecycle (Kill rn) = True"
| "isLifecycle (Send r) = True"
| "isLifecycle _ = False"

subsection \<open>Strategy selection\<close>

text \<open>
  \<^verbatim>\<open>strings.ToLower\<close> of the Go library, on the bytes of the string: an ASCII capital
  letter becomes the small one, every other byte is kept. On a string with non-ASCII
  characters Go maps the Unicode characters instead; no non-ASCII character has
  \<^verbatim>\<open>l\<close>, \<^verbatim>\<open>a\<close>, \<^verbatim>\<open>z\<close> or \<^verbatim>\<open>y\<close> as its lower case, so on such a string the result
  differs from \<^verbatim>\<open>lazy\<close> there as it does here.
\<close>

definition toLowerByte :: "char \<Rightarrow> char" where
  "toLowerByte c =
     (let n = (of_char c :: nat)
      in if 65 \<le> n \<and> n \<le> 90 then char_of (n + 32) else c)"

definition ToLower :: "string \<Rightarrow> string" where
  "ToLower s = map toLowerByte s"

text \<open>The constants \<^verbatim>\<open>Eager\<close> and \<^verbatim>\<open>Lazy\<close>; the package variable \<^verbatim>\<open>Strategy\<close> is the argument.\<close>

definition Lazy :: string where "Lazy = ''lazy''"
definition Eager :: string where "Eager = ''eager''"

definition isLazy :: "string \<Rightarrow> bool" where
  "isLazy Strategy = (ToLower Strategy = Lazy)"

text \<open>
  The branch of \<^verbatim>\<open>run\<close>: \<^verbatim>\<open>if isLazy() { go e.executeLazily(...) } else { go
  e.executeEagerly(...) }\<close>. There is no third outcome and no error.
\<close>

datatype strategy = LazyStrategy | EagerStrategy

definition selectStrategy :: "string \<Rightarrow> strategy" where
  "selectStrategy Strategy = (if isLazy Strategy then LazyStrategy else EagerStrategy)"

text \<open>
  The specification's words, for the comparison: \<open>s\<close> is the word \<open>lower\<close> (small letters) in
  any letter case when it has the same length and each of its bytes is the letter of
  \<open>lower\<close> at that place or the capital of it, 32 below.
\<close>

definition sameLetter :: "char \<Rightarrow> char \<Rightarrow> bool" where
  "sameLetter l c = (c = l \<or> (of_char c :: nat) + 32 = of_char l)"

definition inAnyLetterCase :: "string \<Rightarrow> string \<Rightarrow> bool" where
  "inAnyLetterCase lower s = list_all2 sameLetter lower s"

subsection \<open>Timeouts from the configuration\<close>

text \<open>
  A \<^verbatim>\<open>time.Duration\<close> is an \<^verbatim>\<open>int64\<close> count of nanoseconds: a 64-bit word read by
  \<^term>\<open>sint\<close>, whose multiplication wraps as Go's does. A Go \<^verbatim>\<open>int\<close> has 64 bits.
\<close>

type_synonym Duration = "64 word"

definition Millisecond :: Duration where "Millisecond = 1000000"
definition Second :: Duration where "Second = 1000 * Millisecond"
definition defaultRunnerConnectionTimeout :: Duration where
  "defaultRunnerConnectionTimeout = Second * 25"
definition runnerConnectionTimeout :: string where
  "runnerConnectionTimeout = ''runner_connection_timeout''"

text \<open>
  \<^verbatim>\<open>strconv.Atoi\<close> of the Go library: an optional sign, then at least one decimal digit
  and nothing else, and a value within the range of a 64-bit \<^verbatim>\<open>int\<close>; \<^term>\<open>None\<close> is
  the error (of syntax or of range).
\<close>

fun digitsValue :: "nat \<Rightarrow> string \<Rightarrow> nat option" where
  "digitsValue n [] = Some n"
| "digitsValue n (ch # rest) =
     (let d = (of_char ch :: nat)
      in if 48 \<le> d \<and> d \<le> 57 then digitsValue (n * 10 + (d - 48)) rest else None)"

definition Atoi :: "string \<Rightarrow> int option" where
  "Atoi s =
     (case s of
        [] \<Rightarrow> None
      | c # rest \<Rightarrow>
          (let neg = (c = CHR ''-'');
               digits = (if c = CHR ''-'' \<or> c = CHR ''+'' then rest else s)
           in if digits = [] then None
              else (case digitsValue 0 digits of
                      None \<Rightarrow> None
                    | Some n \<Rightarrow>
                        if neg then (if n \<le> 9223372036854775808 then Some (- int n) else None)
                        else (if n < 9223372036854775808 then Some (int n) else None))))"

text \<open>The warning that \<^verbatim>\<open>convertToTime\<close> logs on an error is not a part of its result.\<close>

definition convertToTime :: "string \<Rightarrow> Duration \<Rightarrow> string \<Rightarrow> Duration" where
  "convertToTime value defaultValue name =
     (case Atoi value of
        None \<Rightarrow> defaultValue
      | Some intValue \<Rightarrow> Millisecond * word_of_int intValue)"

text \<open>
  \<^verbatim>\<open>getFromConfig\<close>: the configuration is \<^term>\<open>None\<close> when
  \<^verbatim>\<open>common.GetGaugeConfiguration\<close> fails, and the empty string is returned then; a Go
  map gives the empty string for a missing key.
\<close>

definition getFromConfig :: "(string \<rightharpoonup> string) option \<Rightarrow> string \<Rightarrow> string" where
  "getFromConfig config propertyName =
     (case config of
        None \<Rightarrow> []
      | Some m \<Rightarrow> (case m propertyName of None \<Rightarrow> [] | Some v \<Rightarrow> v))"

text \<open>
  The source documents the getter:
  \<^verbatim>\<open>RunnerConnectionTimeout gets timeout in milliseconds for making a connection to the
  language runner\<close>.
\<close>

definition RunnerConnectionTimeout :: "(string \<rightharpoonup> string) option \<Rightarrow> Duration" where
  "RunnerConnectionTimeout config =
     convertToTime (getFromConfig config runnerConnectionTimeout)
       defaultRunnerConnectionTimeout runnerConnectionTimeout"

subsection \<open>Example collaborators\<close>

text \<open>
  Instances of the external collaborators for the concrete runs below: a spec result is
  the spec's name with its skipped flag, a hook result is a text, a runner is a number.
  \<open>passingExecute\<close> is an executor under which every spec passes; \<open>hookResult h\<close> is
  the result of a stream that reports only the pre-suite hook result \<open>h\<close>.
\<close>

definition passingExecute ::
  "SpecCollection \<Rightarrow> nat \<Rightarrow> int \<Rightarrow> (string \<times> bool, string) SuiteResult" where
  "passingExecute s runner stream =
     zeroSuiteResult\<lparr>SpecResults := map (\<lambda>name. (name, False)) s\<rparr>"

definition hookResult :: "string \<Rightarrow> (string \<times> bool, string) SuiteResult" where
  "hookResult h = zeroSuiteResult\<lparr>PreSuite := Some h\<rparr>"

section \<open>Properties\<close>

subsection \<open>The text of a stream error\<close>

lemma appendSpecNames_concat:
  "appendSpecNames acc names = acc @ concat (map (\<lambda>n. n @ [LF]) names)"
  by (induction names arbitrary: acc) simp_all

text \<open>
  C9. For a \<^verbatim>\<open>streamExecError\<close> with skipped names \<open>n1, ..., nk\<close> and message \<open>m\<close>, the
  text of \<^verbatim>\<open>Error()\<close> is the header line, then every name on a line of its own in list
  order, then \<^verbatim>\<open>Reason : \<close>, the message and a full stop.
\<close>

theorem Error_text:
  "Error \<lparr>specsSkipped = names, message = m\<rparr> =
     ''The following specifications could not be executed:'' @ [LF]
       @ concat (map (\<lambda>n. n @ [LF]) names) @ ''Reason : '' @ m @ ''.''"
  by (simp add: Error_def appendSpecNames_concat)

theorem Error_text_witness:
  "Error \<lparr>specsSkipped = [''a.spec'', ''b.spec''], message = ''boom''\<rparr> =
     ''The following specifications could not be executed:'' @ [LF]
       @ ''a.spec'' @ [LF] @ ''b.spec'' @ [LF] @ ''Reason : boom.''"
  using Error_text [of "[''a.spec'', ''b.spec'']" "''boom''"] by simp

subsection \<open>Stream-count resolution\<close>

text \<open>
  C1 as stated fails when no stream is requested: with one specification and a requested
  count of 0 the effective count is 0.
\<close>

theorem numberOfStreams_zero_counterexample:
  "0 < Size [''a.spec''] \<and>
   numberOfStreams \<lparr>specCollection = [''a.spec''], numberOfExecutionStreams = 0\<rparr> = 0"
  by (simp add: numberOfStreams_def Size_def)

text \<open>
  C1 (amended). For every requested count \<open>R\<close> and collection of size \<open>S\<close>,
  \<^verbatim>\<open>numberOfStreams\<close> returns \<open>min R S\<close>. When at least one stream is requested the
  result is zero exactly when there is no specification; when there is a specification
  the result is zero exactly when the requested count is zero.
\<close>

theorem numberOfStreams_min:
  "numberOfStreams e = min (numberOfExecutionStreams e) (Size (specCollection e)) \<and>
   (1 \<le> numberOfExecutionStreams e \<longrightarrow>
      (numberOfStreams e = 0 \<longleftrightarrow> Size (specCollection e) = 0)) \<and>
   (0 < Size (specCollection e) \<longrightarrow>
      (numberOfStreams e = 0 \<longleftrightarrow> numberOfExecutionStreams e = 0))"
  by (auto simp: numberOfStreams_def Size_def Let_def min_def)

theorem numberOfStreams_min_witness:
  "(1::int) \<le> 10 \<and> 0 < Size [''a'', ''b'', ''c''] \<and>
   numberOfStreams \<lparr>specCollection = [''a'', ''b'', ''c''], numberOfExecutionStreams = 10\<rparr> = 3"
  using numberOfStreams_min
    [of "\<lparr>specCollection = [''a'', ''b'', ''c''], numberOfExecutionStreams = 10\<rparr>"]
  by (simp add: Size_def)

subsection \<open>Aggregation\<close>

text \<open>What one round of the loop does to each field, and what the whole loop does.\<close>

lemma addStreamResult_fields:
  "SpecsFailedCount (addStreamResult r x) = SpecsFailedCount r + SpecsFailedCount x"
  "SpecResults (addStreamResult r x) = SpecResults r @ SpecResults x"
  "IsFailed (addStreamResult r x) = (IsFailed r \<or> IsFailed x)"
  "PreSuite (addStreamResult r x) = (case PreSuite x of None \<Rightarrow> PreSuite r | Some h \<Rightarrow> Some h)"
  "PostSuite (addStreamResult r x) = (case PostSuite x of None \<Rightarrow> PostSuite r | Some h \<Rightarrow> Some h)"
  "UnhandledErrors (addStreamResult r x) = UnhandledErrors r @ UnhandledErrors x"
  "Tags (addStreamResult r x) = Tags r"
  "Timestamp (addStreamResult r x) = Timestamp r"
  "ExecutionTime (addStreamResult r x) = ExecutionTime r"
  "SpecsSkippedCount (addStreamResult r x) = SpecsSkippedCount r"
  by (auto simp: addStreamResult_def Let_def split: option.splits)

lemma fold_SpecsFailedCount:
  "SpecsFailedCount (foldStreamResults r xs) = SpecsFailedCount r + sum_list (map SpecsFailedCount xs)"
  by (induction xs arbitrary: r) (simp_all add: addStreamResult_fields add.assoc)

lemma fold_SpecResults:
  "SpecResults (foldStreamResults r xs) = SpecResults r @ concat (map SpecResults xs)"
  by (induction xs arbitrary: r) (simp_all add: addStreamResult_fields)

lemma fold_UnhandledErrors:
  "UnhandledErrors (foldStreamResults r xs) = UnhandledErrors r @ concat (map UnhandledErrors xs)"
  by (induction xs arbitrary: r) (simp_all add: addStreamResult_fields)

lemma fold_IsFailed:
  "IsFailed (foldStreamResults r xs) = (IsFailed r \<or> list_ex IsFailed xs)"
  by (induction xs arbitrary: r) (auto simp add: addStreamResult_fields)

lemma lastNonNil_Nil: "lastNonNil [] = None"
  by (simp add: lastNonNil_def)

lemma lastNonNil_snoc:
  "lastNonNil (xs @ [x]) = (case x of None \<Rightarrow> lastNonNil xs | Some h \<Rightarrow> Some h)"
  by (simp add: lastNonNil_def split: option.splits)

lemma firstNonNil_append:
  "firstNonNil (xs @ ys) = (case firstNonNil xs of None \<Rightarrow> firstNonNil ys | Some h \<Rightarrow> Some h)"
  by (induction xs rule: firstNonNil.induct) simp_all

lemma lastNonNil_Cons:
  "lastNonNil (x # xs) = (case lastNonNil xs of None \<Rightarrow> x | Some h \<Rightarrow> Some h)"
  by (cases x) (simp_all add: lastNonNil_def firstNonNil_append split: option.splits)

lemma fold_PreSuite:
  "PreSuite (foldStreamResults r xs) =
     (case lastNonNil (map PreSuite xs) of None \<Rightarrow> PreSuite r | Some h \<Rightarrow> Some h)"
  by (induction xs arbitrary: r)
     (simp_all add: addStreamResult_fields lastNonNil_Cons lastNonNil_Nil split: option.splits)

lemma fold_PostSuite:
  "PostSuite (foldStreamResults r xs) =
     (case lastNonNil (map PostSuite xs) of None \<Rightarrow> PostSuite r | Some h \<Rightarrow> Some h)"
  by (induction xs arbitrary: r)
     (simp_all add: addStreamResult_fields lastNonNil_Cons lastNonNil_Nil split: option.splits)

lemma fold_unchanged:
  "Tags (foldStreamResults r xs) = Tags r"
  "Timestamp (foldStreamResults r xs) = Timestamp r"
  "ExecutionTime (foldStreamResults r xs) = ExecutionTime r"
  "SpecsSkippedCount (foldStreamResults r xs) = SpecsSkippedCount r"
  by (induction xs arbitrary: r) (simp_all add: addStreamResult_fields)

lemma aggregateResults_sel:
  "SpecsFailedCount (aggregateResults skipped tags st el rs) = sum_list (map SpecsFailedCount rs) \<and>
   SpecResults (aggregateResults skipped tags st el rs) = concat (map SpecResults rs) \<and>
   IsFailed (aggregateResults skipped tags st el rs) = list_ex IsFailed rs \<and>
   UnhandledErrors (aggregateResults skipped tags st el rs) = concat (map UnhandledErrors rs) \<and>
   PreSuite (aggregateResults skipped tags st el rs) = lastNonNil (map PreSuite rs) \<and>
   PostSuite (aggregateResults skipped tags st el rs) = lastNonNil (map PostSuite rs) \<and>
   SpecsSkippedCount (aggregateResults skipped tags st el rs) = of_nat (length (filter skipped (concat (map SpecResults rs)))) \<and>
   ExecutionTime (aggregateResults skipped tags st el rs) = quot el 1000000"
  by (simp add: aggregateResults_def Let_def SetSpecsSkippedCount_def NewSuiteResult_def
      zeroSuiteResult_def fold_SpecsFailedCount fold_SpecResults fold_IsFailed
      fold_UnhandledErrors fold_PreSuite fold_PostSuite fold_unchanged split: option.splits)


text \<open>
  C4 as stated fails for the hook results: with two streams that both report a pre-suite
  hook result, the aggregate keeps the one of the stream that arrived last, not the first.
\<close>

theorem aggregateResults_first_hook_counterexample:
  "PreSuite (aggregateResults snd ''tags'' 0 0 [hookResult ''h1'', hookResult ''h2'']) = Some ''h2'' \<and>
   firstNonNil (map PreSuite [hookResult ''h1'', hookResult ''h2'']) = Some ''h1''"
  by (simp add: aggregateResults_def SetSpecsSkippedCount_def NewSuiteResult_def
      addStreamResult_def hookResult_def zeroSuiteResult_def Let_def)

text \<open>
  C4 (amended). For every list of stream results the aggregate's failed count is the sum
  of the streams' counts (in Go's \<^verbatim>\<open>int\<close> arithmetic), its spec results and its
  unhandled errors are the concatenations of the streams' in arrival order, its failure
  flag is the disjunction of the streams' flags, and its pre- and post-suite hook results
  are the last non-nil ones among the streams. The skipped count is recomputed from the
  concatenated spec results and the execution time is the elapsed time in milliseconds.
\<close>

theorem aggregateResults_fields:
  "SpecsFailedCount (aggregateResults skipped tags st el rs) = sum_list (map SpecsFailedCount rs) \<and>
   SpecResults (aggregateResults skipped tags st el rs) = concat (map SpecResults rs) \<and>
   IsFailed (aggregateResults skipped tags st el rs) = list_ex IsFailed rs \<and>
   UnhandledErrors (aggregateResults skipped tags st el rs) = concat (map UnhandledErrors rs) \<and>
   PreSuite (aggregateResults skipped tags st el rs) = lastNonNil (map PreSuite rs) \<and>
   PostSuite (aggregateResults skipped tags st el rs) = lastNonNil (map PostSuite rs) \<and>
   SpecsSkippedCount (aggregateResults skipped tags st el rs) = of_nat (length (filter skipped (concat (map SpecResults rs)))) \<and>
   ExecutionTime (aggregateResults skipped tags st el rs) = quot el 1000000"
  by (simp add: aggregateResults_sel)

theorem aggregateResults_fields_witness:
  "SpecResults (aggregateResults snd ''tags'' 0 5000000
      [passingExecute [''a.spec''] 1 1, passingExecute [''b.spec''] 2 2])
     = [(''a.spec'', False), (''b.spec'', False)] \<and>
   PreSuite (aggregateResults snd ''tags'' 0 5000000 [hookResult ''h1'', hookResult ''h2''])
     = Some ''h2''"
  using aggregateResults_fields [of snd "''tags''" 0 5000000
      "[passingExecute [''a.spec''] 1 1, passingExecute [''b.spec''] 2 2]"]
    aggregateResults_fields [of snd "''tags''" 0 5000000 "[hookResult ''h1'', hookResult ''h2'']"]
  by (simp add: passingExecute_def hookResult_def zeroSuiteResult_def lastNonNil_def)

subsection \<open>Arrival order\<close>

lemma sum_list_map_mset_cong:
  fixes f :: "'a \<Rightarrow> 'b::comm_monoid_add"
  assumes "mset xs = mset ys"
  shows "sum_list (map f xs) = sum_list (map f ys)"
proof -
  have "sum_list (map f xs) = sum_mset (image_mset f (mset xs))"
    by (simp flip: sum_mset_sum_list)
  also have "\<dots> = sum_mset (image_mset f (mset ys))"
    using assms by simp
  also have "\<dots> = sum_list (map f ys)"
    by (simp flip: sum_mset_sum_list)
  finally show ?thesis .
qed

lemma mset_concat_map_cong:
  assumes "mset xs = mset ys"
  shows "mset (concat (map f xs)) = mset (concat (map f ys))"
  using sum_list_map_mset_cong [OF assms, of "\<lambda>x. mset (f x)"]
  by (simp add: mset_concat comp_def)

lemma list_ex_mset_cong:
  assumes "mset xs = mset ys"
  shows "list_ex P xs = list_ex P ys"
  using mset_eq_setD [OF assms] by (simp add: list_ex_iff)

lemma length_filter_mset_cong:
  assumes "mset xs = mset ys"
  shows "length (filter P xs) = length (filter P ys)"
proof -
  have "mset (filter P xs) = mset (filter P ys)"
    using assms by simp
  then show ?thesis by (rule mset_eq_length)
qed

lemma firstNonNil_None: "firstNonNil xs = None \<longleftrightarrow> list_all (\<lambda>x. x = None) xs"
  by (induction xs rule: firstNonNil.induct) simp_all

lemma lastNonNil_None: "lastNonNil xs = None \<longleftrightarrow> list_all (\<lambda>x. x = None) xs"
  by (simp add: lastNonNil_def firstNonNil_None list_all_iff)

lemma lastNonNil_None_mset_cong:
  assumes "mset xs = mset ys"
  shows "lastNonNil (map f xs) = None \<longleftrightarrow> lastNonNil (map f ys) = None"
  using mset_eq_setD [OF assms] by (simp add: lastNonNil_None list_all_iff)

lemma lastNonNil_filter: "lastNonNil (filter (\<lambda>x. x \<noteq> None) xs) = lastNonNil xs"
  by (induction xs) (auto simp add: lastNonNil_Cons lastNonNil_Nil lastNonNil_None split: option.splits)

lemma mset_eq_short:
  assumes "mset xs = mset ys" "length ys \<le> 1"
  shows "xs = ys"
proof -
  have "length xs = length ys" using assms(1) by (rule mset_eq_length)
  with assms show ?thesis
    by (cases xs; cases ys) (auto simp add: length_Suc_conv)
qed

lemma lastNonNil_single_mset_cong:
  assumes "mset xs = mset ys" "length (filter (\<lambda>r. f r \<noteq> None) ys) \<le> 1"
  shows "lastNonNil (map f xs) = lastNonNil (map f ys)"
proof -
  have "mset (filter (\<lambda>x. x \<noteq> None) (map f xs)) = mset (filter (\<lambda>x. x \<noteq> None) (map f ys))"
    using assms(1) by (metis mset_filter mset_map)
  moreover have "length (filter (\<lambda>x. x \<noteq> None) (map f ys)) \<le> 1"
    using assms(2) by (simp add: filter_map comp_def)
  ultimately have "filter (\<lambda>x. x \<noteq> None) (map f xs) = filter (\<lambda>x. x \<noteq> None) (map f ys)"
    by (rule mset_eq_short)
  then show ?thesis by (metis lastNonNil_filter)
qed

text \<open>
  C5 as stated fails: two streams with one spec result each give aggregates that differ
  in the order of the spec results, with the same execution time.
\<close>

theorem aggregateResults_order_counterexample:
  "aggregateResults snd ''tags'' 0 0
      [passingExecute [''a.spec''] 1 1, passingExecute [''b.spec''] 2 2]
   \<noteq> aggregateResults snd ''tags'' 0 0
      [passingExecute [''b.spec''] 2 2, passingExecute [''a.spec''] 1 1]"
  by (simp add: aggregateResults_def SetSpecsSkippedCount_def NewSuiteResult_def
      addStreamResult_def passingExecute_def zeroSuiteResult_def Let_def)

text \<open>
  C5 (amended). For every list of stream results and every permutation of it, the two
  aggregates have the same failed count, failure flag and skipped count, the same spec
  results and unhandled errors up to order, and a pre-suite (post-suite) hook result in
  the one exactly when there is one in the other; it is the same hook result when at most
  one stream reports one.
\<close>

theorem aggregateResults_permutation:
  assumes "mset rs' = mset rs"
  shows "SpecsFailedCount (aggregateResults skipped tags st el rs')
           = SpecsFailedCount (aggregateResults skipped tags st el rs) \<and>
         IsFailed (aggregateResults skipped tags st el rs')
           = IsFailed (aggregateResults skipped tags st el rs) \<and>
         SpecsSkippedCount (aggregateResults skipped tags st el rs')
           = SpecsSkippedCount (aggregateResults skipped tags st el rs) \<and>
         mset (SpecResults (aggregateResults skipped tags st el rs'))
           = mset (SpecResults (aggregateResults skipped tags st el rs)) \<and>
         mset (UnhandledErrors (aggregateResults skipped tags st el rs'))
           = mset (UnhandledErrors (aggregateResults skipped tags st el rs)) \<and>
         (PreSuite (aggregateResults skipped tags st el rs') = None)
           = (PreSuite (aggregateResults skipped tags st el rs) = None) \<and>
         (PostSuite (aggregateResults skipped tags st el rs') = None)
           = (PostSuite (aggregateResults skipped tags st el rs) = None) \<and>
         (length (filter (\<lambda>r. PreSuite r \<noteq> None) rs) \<le> 1 \<longrightarrow>
            PreSuite (aggregateResults skipped tags st el rs')
              = PreSuite (aggregateResults skipped tags st el rs)) \<and>
         (length (filter (\<lambda>r. PostSuite r \<noteq> None) rs) \<le> 1 \<longrightarrow>
            PostSuite (aggregateResults skipped tags st el rs')
              = PostSuite (aggregateResults skipped tags st el rs))"
proof -
  have skippedCount: "length (filter skipped (concat (map SpecResults rs')))
      = length (filter skipped (concat (map SpecResults rs)))"
    by (rule length_filter_mset_cong) (rule mset_concat_map_cong [OF assms])
  show ?thesis
    using sum_list_map_mset_cong [OF assms, of SpecsFailedCount]
      list_ex_mset_cong [OF assms, of IsFailed]
      mset_concat_map_cong [OF assms, of SpecResults]
      mset_concat_map_cong [OF assms, of UnhandledErrors]
      lastNonNil_None_mset_cong [OF assms, of PreSuite]
      lastNonNil_None_mset_cong [OF assms, of PostSuite]
      lastNonNil_single_mset_cong [OF assms, of PreSuite]
      lastNonNil_single_mset_cong [OF assms, of PostSuite]
      skippedCount
    by (simp add: aggregateResults_sel)
qed

theorem aggregateResults_permutation_witness:
  "mset [passingExecute [''b.spec''] 2 2, passingExecute [''a.spec''] 1 1]
     = mset [passingExecute [''a.spec''] 1 1, passingExecute [''b.spec''] 2 2] \<and>
   length (filter (\<lambda>r. PreSuite r \<noteq> None)
      [passingExecute [''a.spec''] 1 1, passingExecute [''b.spec''] 2 2]) \<le> 1 \<and>
   length (filter (\<lambda>r. PostSuite r \<noteq> None)
      [passingExecute [''a.spec''] 1 1, passingExecute [''b.spec''] 2 2]) \<le> 1 \<and>
   mset (SpecResults (aggregateResults snd ''tags'' 0 0
      [passingExecute [''b.spec''] 2 2, passingExecute [''a.spec''] 1 1]))
     = mset [(''a.spec'', False), (''b.spec'', False)] \<and>
   PreSuite (aggregateResults snd ''tags'' 0 0
      [passingExecute [''b.spec''] 2 2, passingExecute [''a.spec''] 1 1]) = None"
proof -
  have h: "mset [passingExecute [''b.spec''] 2 2, passingExecute [''a.spec''] 1 1]
     = mset [passingExecute [''a.spec''] 1 1, passingExecute [''b.spec''] 2 2]"
    by (simp add: add_mset_commute)
  show ?thesis
    using h aggregateResults_permutation [OF h, of snd "''tags''" 0 0]
    by (simp add: aggregateResults_sel passingExecute_def zeroSuiteResult_def lastNonNil_def)
qed

subsection \<open>Stream workers\<close>

lemma sent_simps:
  "sent [] = []"
  "sent (ev # t) = sentOf ev @ sent t"
  "sent (t @ u) = sent t @ sent u"
  by (simp_all add: sent_def)

lemma killed_simps:
  "killed [] = []"
  "killed (ev # t) = killedOf ev @ killed t"
  "killed (t @ u) = killed t @ killed u"
  by (simp_all add: killed_def)

lemma executed_simps:
  "executed [] = []"
  "executed (ev # t) = executedOf ev @ executed t"
  "executed (t @ u) = executed t @ executed u"
  by (simp_all add: executed_def)

lemmas trace_simps = sent_simps killed_simps executed_simps

text \<open>
  C2 as stated fails in Lazy mode: \<^verbatim>\<open>startStream\<close> reports a failed start as a plain
  \<^verbatim>\<open>fmt.Errorf\<close> error, which is no \<^verbatim>\<open>streamExecError\<close> and names no spec.
\<close>

theorem startStream_failure_counterexample:
  "map UnhandledErrors (sent (startStream passingExecute [''a.spec''] (Inl ''boom'') 1))
     = [[FmtError ''Failed to start runner. boom'']] \<and>
   \<not> isStreamExecErr (FmtError ''Failed to start runner. boom'')"
  by (simp add: startStream_def trace_simps)

text \<open>
  C2 (amended). When the worker process of a stream fails to start, nothing is executed
  and no runner is killed; the stream sends one result, whose spec results are empty and
  whose unhandled errors hold exactly one error. In Eager mode (\<^verbatim>\<open>startSpecsExecution\<close>)
  that error is a \<^verbatim>\<open>streamExecError\<close> naming every spec of the stream's bucket, with the
  reason; in Lazy mode (\<^verbatim>\<open>startStream\<close>) it is a plain error with the reason, naming no
  spec.
\<close>

theorem start_failure_result:
  "executed (startSpecsExecution execute s (Inl err) stream) = [] \<and>
   killed (startSpecsExecution execute s (Inl err) stream) = [] \<and>
   map SpecResults (sent (startSpecsExecution execute s (Inl err) stream)) = [[]] \<and>
   map UnhandledErrors (sent (startSpecsExecution execute s (Inl err) stream))
     = [[StreamExecErr \<lparr>specsSkipped = SpecNames s,
                         message = ''Failed to start runner. '' @ err\<rparr>]] \<and>
   executed (startStream execute s (Inl err) stream) = [] \<and>
   killed (startStream execute s (Inl err) stream) = [] \<and>
   map SpecResults (sent (startStream execute s (Inl err) stream)) = [[]] \<and>
   map UnhandledErrors (sent (startStream execute s (Inl err) stream))
     = [[FmtError (''Failed to start runner. '' @ err)]]"
  by (simp add: startSpecsExecution_def startStream_def trace_simps zeroSuiteResult_def)

theorem start_failure_result_witness:
  "map UnhandledErrors (sent (startSpecsExecution passingExecute [''a.spec'', ''b.spec''] (Inl ''boom'') 1))
     = [[StreamExecErr \<lparr>specsSkipped = [''a.spec'', ''b.spec''],
                         message = ''Failed to start runner. boom''\<rparr>]] \<and>
   map SpecResults (sent (startSpecsExecution passingExecute [''a.spec'', ''b.spec''] (Inl ''boom'') 1))
     = [[]]"
  using start_failure_result [of passingExecute "[''a.spec'', ''b.spec'']" "''boom''" 1]
  by (simp add: SpecNames_def)

text \<open>
  C7. Every stream worker sends exactly once on the result channel, whether its worker
  process starts or not, and then signals the wait group as its last step. The
  collaborators are functions here: they return.
\<close>

theorem one_send_per_stream:
  "length (sent (startSpecsExecutionWithRunner execute s runner stream)) = 1 \<and>
   length (sent (startStream execute s started stream)) = 1 \<and>
   length (sent (startSpecsExecution execute s started stream)) = 1 \<and>
   last (startStream execute s started stream) = WgDone \<and>
   last (startSpecsExecution execute s started stream) = WgDone"
proof -
  have withRunner: "length (sent (startSpecsExecutionWithRunner execute s r stream)) = 1" for r
    by (simp add: startSpecsExecutionWithRunner_def trace_simps)
  have lazy: "length (sent (startStream execute s started stream)) = 1"
    using withRunner by (cases started) (simp_all add: startStream_def trace_simps)
  have eager: "length (sent (startSpecsExecution execute s started stream)) = 1"
    using withRunner by (cases started) (simp_all add: startSpecsExecution_def trace_simps)
  show ?thesis
    using withRunner lazy eager by (simp add: startStream_def startSpecsExecution_def)
qed

theorem one_send_per_stream_witness:
  "length (sent (startStream passingExecute [''a.spec'', ''b.spec''] (Inl ''boom'') 2)) = 1 \<and>
   length (sent (startStream passingExecute [''a.spec'', ''b.spec''] (Inr 1) 1)) = 1 \<and>
   length (sent (startSpecsExecution passingExecute [''a.spec''] (Inl ''boom'') 2)) = 1 \<and>
   length (sent (startSpecsExecution passingExecute [''b.spec''] (Inr 1) 1)) = 1"
  using one_send_per_stream [of passingExecute "[''a.spec'', ''b.spec'']" 1 2 "Inl ''boom''"]
    one_send_per_stream [of passingExecute "[''a.spec'', ''b.spec'']" 1 1 "Inr 1"]
    one_send_per_stream [of passingExecute "[''a.spec'']" 1 2 "Inl ''boom''"]
    one_send_per_stream [of passingExecute "[''b.spec'']" 1 1 "Inr 1"]
  by simp

text \<open>
  C8. When the worker process has started, the worker runs the executor, then kills the
  runner (once, whatever the executor returned), then sends the executor's result as it
  is.
\<close>

theorem executor_then_kill_then_send:
  "filter isLifecycle (startSpecsExecutionWithRunner execute s runner stream)
     = [Execute s runner stream, Kill runner, Send (execute s runner stream)] \<and>
   filter isLifecycle (startStream execute s (Inr runner) stream)
     = [Execute s runner stream, Kill runner, Send (execute s runner stream)] \<and>
   filter isLifecycle (startSpecsExecution execute s (Inr runner) stream)
     = [Execute s runner stream, Kill runner, Send (execute s runner stream)] \<and>
   killed (startStream execute s (Inr runner) stream) = [runner] \<and>
   killed (startSpecsExecution execute s (Inr runner) stream) = [runner] \<and>
   sent (startStream execute s (Inr runner) stream) = [execute s runner stream] \<and>
   sent (startSpecsExecution execute s (Inr runner) stream) = [execute s runner stream]"
  by (simp add: startSpecsExecutionWithRunner_def startStream_def startSpecsExecution_def
      trace_simps)

theorem executor_then_kill_then_send_witness:
  "filter isLifecycle (startSpecsExecution passingExecute [''a.spec''] (Inr 7) 1)
     = [Execute [''a.spec''] 7 1, Kill 7, Send (passingExecute [''a.spec''] 7 1)]"
  using executor_then_kill_then_send [of passingExecute "[''a.spec'']" 7 1]
  by simp

subsection \<open>One stream fails to start\<close>

lemma list_all_no_errors:
  "list_all (\<lambda>r. UnhandledErrors r = []) rs \<Longrightarrow> concat (map UnhandledErrors rs) = []"
  by (induction rs) simp_all

text \<open>
  C3 as stated fails: the result of a stream that failed to start has its failure flag
  unset, so with one such stream and one stream that passes the aggregate is not marked
  failed, while its unhandled errors hold the one entry.
\<close>

theorem start_failure_not_failed_counterexample:
  "\<not> IsFailed (aggregateResults snd ''tags'' 0 0
      (sent (startSpecsExecution passingExecute [''a.spec''] (Inl ''boom'') 1)
        @ sent (startSpecsExecution passingExecute [''b.spec''] (Inr 2) 2))) \<and>
   length (UnhandledErrors (aggregateResults snd ''tags'' 0 0
      (sent (startSpecsExecution passingExecute [''a.spec''] (Inl ''boom'') 1)
        @ sent (startSpecsExecution passingExecute [''b.spec''] (Inr 2) 2)))) = 1"
  by (simp add: aggregateResults_def SetSpecsSkippedCount_def NewSuiteResult_def
      addStreamResult_def startSpecsExecution_def startSpecsExecutionWithRunner_def
      trace_simps passingExecute_def zeroSuiteResult_def Let_def)

text \<open>
  C3 (amended). If one stream of an Eager run fails to start and the other streams'
  results arrive before and after its result, the aggregate holds the other streams' spec
  results unchanged and in arrival order, its failed count is the sum of theirs, and its
  failure flag is the disjunction of theirs: the failed start itself does not set it.
  When the other streams have no unhandled errors, the aggregate's unhandled errors are
  exactly the one \<^verbatim>\<open>streamExecError\<close> naming the failed stream's specs.
\<close>

theorem one_stream_fails_to_start:
  "SpecResults (aggregateResults skipped tags st el
      (before @ sent (startSpecsExecution execute s (Inl err) stream) @ after))
     = concat (map SpecResults (before @ after)) \<and>
   SpecsFailedCount (aggregateResults skipped tags st el
      (before @ sent (startSpecsExecution execute s (Inl err) stream) @ after))
     = sum_list (map SpecsFailedCount (before @ after)) \<and>
   IsFailed (aggregateResults skipped tags st el
      (before @ sent (startSpecsExecution execute s (Inl err) stream) @ after))
     = list_ex IsFailed (before @ after) \<and>
   (list_all (\<lambda>r. UnhandledErrors r = []) (before @ after) \<longrightarrow>
      UnhandledErrors (aggregateResults skipped tags st el
        (before @ sent (startSpecsExecution execute s (Inl err) stream) @ after))
       = [StreamExecErr \<lparr>specsSkipped = SpecNames s,
                          message = ''Failed to start runner. '' @ err\<rparr>])"
  by (simp add: aggregateResults_sel startSpecsExecution_def trace_simps zeroSuiteResult_def
      list_all_no_errors)

theorem one_stream_fails_to_start_witness:
  "list_all (\<lambda>r. UnhandledErrors r = [])
     ([passingExecute [''a.spec''] 1 1] @ [passingExecute [''c.spec''] 3 3]) \<and>
   UnhandledErrors (aggregateResults snd ''tags'' 0 0
      ([passingExecute [''a.spec''] 1 1]
        @ sent (startSpecsExecution passingExecute [''b.spec''] (Inl ''boom'') 2)
        @ [passingExecute [''c.spec''] 3 3]))
     = [StreamExecErr \<lparr>specsSkipped = [''b.spec''],
                        message = ''Failed to start runner. boom''\<rparr>] \<and>
   SpecResults (aggregateResults snd ''tags'' 0 0
      ([passingExecute [''a.spec''] 1 1]
        @ sent (startSpecsExecution passingExecute [''b.spec''] (Inl ''boom'') 2)
        @ [passingExecute [''c.spec''] 3 3]))
     = [(''a.spec'', False), (''c.spec'', False)]"
proof -
  have h: "list_all (\<lambda>r. UnhandledErrors r = [])
     ([passingExecute [''a.spec''] 1 1] @ [passingExecute [''c.spec''] 3 3])"
    by (simp add: passingExecute_def zeroSuiteResult_def)
  show ?thesis
    using h one_stream_fails_to_start [of snd "''tags''" 0 0 "[passingExecute [''a.spec''] 1 1]"
        passingExecute "[''b.spec'']" "''boom''" 2 "[passingExecute [''c.spec''] 3 3]"]
    by (simp add: SpecNames_def passingExecute_def zeroSuiteResult_def)
qed

subsection \<open>Strategy selection\<close>

lemma toLowerByte_letter:
  assumes "97 \<le> (of_char l :: nat)" "(of_char l :: nat) \<le> 122"
  shows "toLowerByte c = l \<longleftrightarrow> sameLetter l c"
proof -
  have lt: "(of_char c :: nat) < 256" by (simp add: of_char_def)
  show ?thesis
  proof (cases "65 \<le> (of_char c :: nat) \<and> (of_char c :: nat) \<le> 90")
    case True
    then have "toLowerByte c = char_of ((of_char c :: nat) + 32)"
      by (simp add: toLowerByte_def Let_def)
    moreover have "(char_of ((of_char c :: nat) + 32) = l) \<longleftrightarrow> (of_char c :: nat) + 32 = of_char l"
    proof -
      have "(of_char (char_of ((of_char c :: nat) + 32) :: char) :: nat) = of_char c + 32"
        using True by (simp add: of_char_of)
      then show ?thesis by (metis of_char_eq_iff)
    qed
    moreover have "c \<noteq> l" using True assms by auto
    ultimately show ?thesis by (simp add: sameLetter_def)
  next
    case False
    then have "toLowerByte c = c" by (auto simp add: toLowerByte_def Let_def)
    moreover have "(of_char c :: nat) + 32 \<noteq> of_char l \<or> c = l"
      using False assms by auto
    ultimately show ?thesis by (auto simp: sameLetter_def)
  qed
qed

lemma map_eq_list_all2: "map f s = ls \<longleftrightarrow> list_all2 (\<lambda>l c. f c = l) ls s"
  by (induction s arbitrary: ls) (auto simp add: list_all2_Cons2)

lemma ToLower_lazy: "ToLower s = ''lazy'' \<longleftrightarrow> inAnyLetterCase ''lazy'' s"
proof -
  have "ToLower s = ''lazy'' \<longleftrightarrow> list_all2 (\<lambda>l c. toLowerByte c = l) ''lazy'' s"
    unfolding ToLower_def by (rule map_eq_list_all2)
  also have "\<dots> \<longleftrightarrow> list_all2 sameLetter ''lazy'' s"
    by (auto simp add: list_all2_Cons1 toLowerByte_letter)
  finally show ?thesis by (simp add: inAnyLetterCase_def)
qed

text \<open>
  C6. Strategy resolution is a total function with two outcomes and no error: the value
  \<^verbatim>\<open>lazy\<close> in any letter case selects the Lazy strategy, and every other string, the
  empty one and unrecognised ones such as \<^verbatim>\<open>bogus\<close> among them, selects Eager.
\<close>

theorem strategy_resolution:
  "selectStrategy s = (if inAnyLetterCase ''lazy'' s then LazyStrategy else EagerStrategy)"
  by (simp add: selectStrategy_def isLazy_def Lazy_def ToLower_lazy)

theorem strategy_resolution_witness:
  "selectStrategy ''LaZy'' = LazyStrategy \<and> selectStrategy ''lazy'' = LazyStrategy \<and>
   selectStrategy [] = EagerStrategy \<and> selectStrategy ''bogus'' = EagerStrategy \<and>
   selectStrategy ''eager'' = EagerStrategy"
  using strategy_resolution [of "''LaZy''"] strategy_resolution [of "''lazy''"]
    strategy_resolution [of "[]"] strategy_resolution [of "''bogus''"]
    strategy_resolution [of "''eager''"]
  by (simp add: inAnyLetterCase_def sameLetter_def)

subsection \<open>Timeouts from the configuration\<close>

lemma atoi_500: "Atoi ''500'' = Some 500"
  by (simp add: Atoi_def Let_def)

lemma atoi_neg: "Atoi ''-500'' = Some (-500)"
  by (simp add: Atoi_def Let_def)

lemma atoi_big: "Atoi ''9223372036855'' = Some 9223372036855"
  by (simp add: Atoi_def Let_def)

lemma atoi_abc: "Atoi ''abc'' = None"
  by (simp add: Atoi_def Let_def)

lemma atoi_max: "Atoi ''9223372036854775807'' = Some 9223372036854775807"
  by (simp add: Atoi_def Let_def)

lemma atoi_over: "Atoi ''9223372036854775808'' = None"
  by (simp add: Atoi_def Let_def)

lemma atoi_min: "Atoi ''-9223372036854775808'' = Some (-9223372036854775808)"
  by (simp add: Atoi_def Let_def)

lemma atoi_sign: "Atoi ''-'' = None \<and> Atoi ''+'' = None \<and> Atoi [] = None \<and> Atoi ''1_0'' = None \<and> Atoi '' 5'' = None"
  by (simp add: Atoi_def Let_def)


lemma sint_Millisecond_mult:
  assumes "- 9223372036854 \<le> v" "v \<le> 9223372036854"
  shows "sint (Millisecond * word_of_int v :: 64 word) = v * 1000000"
proof -
  have "Millisecond * word_of_int v = (word_of_int (1000000 * v) :: 64 word)"
    by (simp add: Millisecond_def)
  moreover have "signed_take_bit 63 (1000000 * v) = 1000000 * v"
    using assms by (intro signed_take_bit_int_eq_self) simp_all
  then have "sint (word_of_int (1000000 * v) :: 64 word) = 1000000 * v"
    by (subst signed_of_int) simp
  ultimately show ?thesis by simp
qed

text \<open>
  Where the conversion does what its documentation says: on a value that
  \<^verbatim>\<open>strconv.Atoi\<close> rejects the result is the supplied default, so
  \<^verbatim>\<open>RunnerConnectionTimeout\<close> is 25 seconds when the property is missing or malformed;
  on a value that parses as \<open>v\<close> between \<open>-9223372036854\<close> and \<open>9223372036854\<close> the
  result is exactly \<open>v\<close> milliseconds.
\<close>

lemma convertToTime_in_range:
  "(Atoi value = None \<longrightarrow> convertToTime value defaultValue name = defaultValue) \<and>
   (Atoi value = Some v \<longrightarrow> - 9223372036854 \<le> v \<longrightarrow> v \<le> 9223372036854 \<longrightarrow>
      sint (convertToTime value defaultValue name) = v * 1000000) \<and>
   (Atoi (getFromConfig config runnerConnectionTimeout) = None \<longrightarrow>
      RunnerConnectionTimeout config = defaultRunnerConnectionTimeout) \<and>
   (getFromConfig config runnerConnectionTimeout = [] \<longrightarrow>
      RunnerConnectionTimeout config = defaultRunnerConnectionTimeout) \<and>
   sint defaultRunnerConnectionTimeout = 25 * 1000000000"
proof -
  have "sint defaultRunnerConnectionTimeout = 25 * 1000000000"
    by (simp add: defaultRunnerConnectionTimeout_def Second_def Millisecond_def)
  moreover have "Atoi [] = None"
    by (simp add: Atoi_def)
  ultimately show ?thesis
    using sint_Millisecond_mult [of v]
    by (auto simp add: convertToTime_def RunnerConnectionTimeout_def)
qed

lemma convertToTime_in_range_examples:
  "Atoi ''500'' = Some 500 \<and> (- 9223372036854 :: int) \<le> 500 \<and> (500 :: int) \<le> 9223372036854 \<and>
   sint (convertToTime ''500'' defaultRunnerConnectionTimeout runnerConnectionTimeout)
     = 500 * 1000000 \<and>
   Atoi ''abc'' = None \<and>
   convertToTime ''abc'' defaultRunnerConnectionTimeout runnerConnectionTimeout
     = defaultRunnerConnectionTimeout \<and>
   getFromConfig None runnerConnectionTimeout = [] \<and>
   Atoi (getFromConfig None runnerConnectionTimeout) = None \<and>
   RunnerConnectionTimeout None = defaultRunnerConnectionTimeout \<and>
   sint (RunnerConnectionTimeout None) = 25000000000"
  using convertToTime_in_range [of "''500''" defaultRunnerConnectionTimeout
      runnerConnectionTimeout 500 None]
    convertToTime_in_range [of "''abc''" defaultRunnerConnectionTimeout
      runnerConnectionTimeout 0 None]
  by (simp add: atoi_500 atoi_abc atoi_sign getFromConfig_def Millisecond_def)

text \<open>
  C10. The claim is what the conversion is documented to do (a timeout in milliseconds),
  and the code misses it on a large value: \<^verbatim>\<open>9223372036855\<close> parses as an integer, the
  unchecked product with \<^verbatim>\<open>time.Millisecond\<close> overflows the 64 bits of a duration, and
  the timeout that \<^verbatim>\<open>convertToTime\<close> and \<^verbatim>\<open>RunnerConnectionTimeout\<close> return is negative
  instead of 9223372036855 milliseconds.
\<close>

theorem convertToTime_overflow:
  "Atoi ''9223372036855'' = Some 9223372036855 \<and>
   sint (convertToTime ''9223372036855'' defaultRunnerConnectionTimeout runnerConnectionTimeout)
     = - 9223372036854551616 \<and>
   sint (RunnerConnectionTimeout (Some [runnerConnectionTimeout \<mapsto> ''9223372036855'']))
     = - 9223372036854551616 \<and>
   (- 9223372036854551616 :: int) \<noteq> 9223372036855 * 1000000"
  by (simp add: RunnerConnectionTimeout_def getFromConfig_def convertToTime_def atoi_big
      Millisecond_def)

end
